theory Spec2Isabelle
  imports Main
begin

section \<open>The GitHub storage driver (hub/src/server/drivers/GhDriver.js)\<close>

text \<open>
  A shallow embedding of class \<open>GhDriver\<close>. JavaScript strings are \<open>string\<close>, an optional
  string is a \<open>string option\<close> (\<open>None\<close> is \<open>undefined\<close> or \<open>null\<close>), a thrown
  exception or a rejection is a value of \<open>js_error\<close>, and a promise is the state it ends
  in.
\<close>

subsection \<open>Values, errors and promises\<close>

datatype js_error = Error string | BadPathError string | TypeError

datatype 'a promise = Pending | Resolved 'a | Rejected js_error

datatype log_level = Info | Debug | ErrorLevel

type_synonym log_line = "log_level \<times> string"

text \<open>\<open>!s || s === ''\<close> on an optional string: true when \<open>s\<close> is absent or empty.\<close>

fun missing :: "string option \<Rightarrow> bool" where
  "missing None = True"
| "missing (Some s) = (s = [])"

text \<open>An optional string inside a template literal: \<open>undefined\<close> prints as its name.\<close>

fun template :: "string option \<Rightarrow> string" where
  "template None = ''undefined''"
| "template (Some s) = s"

subsection \<open>The backend client\<close>

text \<open>
  The octokit client is outside the repository. It is a pair of response functions: what
  \<open>repos.createFile\<close> and \<open>repos.getContents\<close> answer to given parameters, \<open>Inl\<close> a
  rejection, \<open>Inr\<close> the value the promise resolves with. Octokit resolves every call
  with a response object \<open>{data, status, headers}\<close>; for \<open>createFile\<close> the code reads
  \<open>results.data.commit.sha\<close> from it.
\<close>

record committer =
  committer_name :: string
  committer_email :: string

record gh_params =
  p_owner :: string
  p_repo :: string
  p_path :: string
  p_message :: string
  p_branch :: string
  p_committer :: committer
  p_content :: string

record list_params =
  lp_owner :: string
  lp_repo :: string
  lp_path :: string

record dir_entry =
  entry_name :: string
  entry_other :: "(string \<times> string) list"

record 'a response =
  data :: 'a
  status :: int
  headers :: "(string \<times> string) list"

record commit_data =
  commit_sha :: string

text \<open>
  What \<open>getContents\<close> resolves with: the response object that holds the entries in
  \<open>data\<close>, as octokit answers, or a value that is itself the array of entries, as a
  stand-in client may answer.
\<close>

datatype contents_answer = ResponseObject "dir_entry list response" | BareArray "dir_entry list"

datatype backend_call = CreateFile gh_params | GetContents list_params

record octokit =
  createFile :: "gh_params \<Rightarrow> js_error + commit_data response"
  getContents :: "list_params \<Rightarrow> js_error + contents_answer"

subsection \<open>Configuration and the constructor\<close>

text \<open>
  A value of a configuration property: the declared type is an optional string, and a
  key may be present with the value \<open>undefined\<close> or \<open>null\<close>. The configuration object
  is the list of its own properties, each key once and with any name; reading a key that
  is not there gives \<open>undefined\<close>.
\<close>

datatype js_value = Undefined | Null | Str string

type_synonym js_object = "(string \<times> js_value) list"

definition property :: "js_object \<Rightarrow> string \<Rightarrow> js_value" where
  "property obj k = (case map_of obj k of None \<Rightarrow> Undefined | Some v \<Rightarrow> v)"

text \<open>\<open>Object.keys\<close>: every own key of the object, whatever its value.\<close>

definition object_keys :: "js_object \<Rightarrow> string list" where
  "object_keys obj = map fst obj"

text \<open>\<open>!v || v === ''\<close>: true for \<open>undefined\<close>, \<open>null\<close> and the empty string.\<close>

fun falsy :: "js_value \<Rightarrow> bool" where
  "falsy Undefined = True"
| "falsy Null = True"
| "falsy (Str s) = (s = [])"

text \<open>The string a value is, read only where the value has passed the test above.\<close>

fun string_of :: "js_value \<Rightarrow> string" where
  "string_of (Str s) = s"
| "string_of v = []"

record config =
  ghConfig :: "js_object option"
  cfg_bucket :: string

text \<open>
  The fields of the instance. \<open>bucket\<close> is declared by the class but is optional here,
  because only an assignment gives it a value.
\<close>

record driver =
  oc :: octokit
  bucket :: "string option"
  owner :: string
  repo :: string
  path :: string
  ref :: string

text \<open>
  The \<open>switch (authtype)\<close> statement: the error it throws, or \<open>None\<close> when it reaches
  \<open>break\<close>.
\<close>

definition switch_authtype :: "js_value \<Rightarrow> js_value \<Rightarrow> js_error option" where
  \<open>switch_authtype authtype token =
     (if authtype = Str ''token'' then
        (if falsy token then Some (Error ''Using token authentication but no token supplied'')
         else None)
      else if authtype = Str ''oauth'' then
        (if falsy token then Some (Error ''Using oauth authentication but no token supplied'')
         else None)
      else Some (Error ''Using an unsupported auth type. Only "token" or "oauth" are supported''))\<close>

text \<open>
  The constructor. \<open>ghConfig\<close> is \<open>None\<close> when \<open>config.ghConfig\<close> is \<open>undefined\<close> or
  \<open>null\<close>. \<open>new_octokit baseurl authtype token\<close> stands for the client made by
  \<open>new octokit({headers, baseUrl})\<close> and then \<open>authenticate({type, token})\<close>. Every
  \<open>throw\<close> comes before the first log line, so the log is part of the success value.
  No statement assigns \<open>this.bucket\<close>.
\<close>

definition constructor ::
  "(js_value \<Rightarrow> string \<Rightarrow> string \<Rightarrow> octokit) \<Rightarrow> config \<Rightarrow> js_error + (driver \<times> log_line list)" where
  \<open>constructor new_octokit cfg =
     (case ghConfig cfg of
        None \<Rightarrow> Inl (Error ''Configuration is missing for GitHub driver'')
      | Some g \<Rightarrow>
          if length (object_keys g) = 0 then Inl (Error ''Configuration is missing for GitHub driver'')
          else
            let authtype = property g ''authtype'';
                token = property g ''token'';
                baseurl = property g ''baseurl'';
                owner_v = property g ''owner'';
                repo_v = property g ''repo'';
                path_v = property g ''path'';
                ref_v = property g ''ref''
            in (case switch_authtype authtype token of
              Some e \<Rightarrow> Inl e
            | None \<Rightarrow>
                if falsy owner_v then Inl (Error ''You must supply an owner'')
                else if falsy repo_v then Inl (Error ''You must supply an repo'')
                else
                  let path_logs = (if falsy path_v
                         then [(Info, ''setting path to / as its not supplied in GitHub driver configuration'')]
                         else []);
                      this_path = (if falsy path_v then ''/'' else string_of path_v);
                      ref_logs = (if falsy ref_v
                         then [(Info, ''setting ref to "master" as its not supplied in GitHub driver configuration'')]
                         else []);
                      this_ref = (if falsy ref_v then ''master'' else string_of ref_v)
                  in Inr (\<lparr>oc = new_octokit baseurl (string_of authtype) (string_of token),
                            bucket = None,
                            owner = string_of owner_v,
                            repo = string_of repo_v,
                            path = this_path,
                            ref = this_ref\<rparr>,
                          path_logs @ ref_logs @ [(Info, ''about to authenticate to GitHub'')])))\<close>

subsection \<open>Path validation and the read URL prefix\<close>

text \<open>\<open>String.prototype.indexOf\<close>: the first position where the pattern starts, or \<open>-1\<close>.\<close>

fun startsWith :: "string \<Rightarrow> string \<Rightarrow> bool" where
  "startsWith s [] = True"
| "startsWith [] (p # ps) = False"
| "startsWith (c # cs) (p # ps) = (c = p \<and> startsWith cs ps)"

fun indexOf_from :: "int \<Rightarrow> string \<Rightarrow> string \<Rightarrow> int" where
  "indexOf_from k [] pat = (if pat = [] then k else - 1)"
| "indexOf_from k (c # cs) pat =
     (if startsWith (c # cs) pat then k else indexOf_from (k + 1) cs pat)"

definition indexOf :: "string \<Rightarrow> string \<Rightarrow> int" where
  "indexOf s pat = indexOf_from 0 s pat"

definition isPathValid :: "string \<Rightarrow> bool" where
  "isPathValid p = (indexOf p ''..'' = - 1)"

definition getReadURLPrefix :: "driver \<Rightarrow> string" where
  "getReadURLPrefix this =
     ''https://raw.githubusercontent.com/'' @ owner this @ ''/'' @ repo this @ ''/'' @ ref this @ ''/''"

subsection \<open>Writing\<close>

text \<open>
  A readable stream is the sequence of events it emits. A chunk is the string it is
  appended as, and an error is the string \<open>${err}\<close> prints. \<open>stream_oc\<close> is the property
  \<open>oc\<close> of the stream object itself, which a plain \<open>Readable\<close> does not have.
\<close>

datatype stream_event = Data string | End | ErrorEvent string

record readable =
  events :: "stream_event list"
  stream_oc :: "octokit option"

record write_args =
  arg_path :: string
  storageTopLevel :: string
  stream :: readable
  contentLength :: int
  contentType :: string

text \<open>
  What an operation leaves behind: the state of the promise it returned, the backend calls
  it made in order, the exceptions and rejections nothing handled, and the log.
\<close>

record 'a outcome =
  promise :: "'a promise"
  calls :: "backend_call list"
  unhandled :: "js_error list"
  logs :: "log_line list"

text \<open>\<open>resolve\<close> and \<open>reject\<close> settle a promise once; later calls change nothing.\<close>

fun settle :: "'a promise \<Rightarrow> 'a promise \<Rightarrow> 'a promise" where
  "settle Pending q = q"
| "settle p q = p"

text \<open>The variables the three listeners share: \<open>contents\<close>, \<open>ghParams\<close> and the promise.\<close>

record write_state =
  contents :: string
  ghParams :: gh_params
  out :: "string outcome"

definition on_data :: "string \<Rightarrow> write_state \<Rightarrow> write_state" where
  "on_data chunk st = st\<lparr>contents := contents st @ chunk\<rparr>"

text \<open>
  The \<open>end\<close> listener is a \<open>function\<close> expression, so its \<open>this\<close> is the emitter: the
  stream, not the driver. \<open>this.oc.repos\<close> is read from the stream and throws a
  \<open>TypeError\<close> when the stream has no \<open>oc\<close>. The promise that \<open>createFile\<close> returns
  has no rejection handler.
\<close>

definition on_end :: "readable \<Rightarrow> string \<Rightarrow> string \<Rightarrow> write_state \<Rightarrow> write_state" where
  "on_end emitter contentPath downloadPath st =
     (let params = (ghParams st)\<lparr>p_content := contents st\<rparr>;
          st1 = st\<lparr>ghParams := params\<rparr>
      in case stream_oc emitter of
           None \<Rightarrow> st1\<lparr>out := (out st1)\<lparr>unhandled := unhandled (out st1) @ [TypeError]\<rparr>\<rparr>
         | Some client \<Rightarrow>
             (case createFile client params of
                Inl e \<Rightarrow>
                  st1\<lparr>out := (out st1)\<lparr>calls := calls (out st1) @ [CreateFile params],
                                        unhandled := unhandled (out st1) @ [e]\<rparr>\<rparr>
              | Inr results \<Rightarrow>
                  st1\<lparr>out := (out st1)\<lparr>calls := calls (out st1) @ [CreateFile params],
                                        logs := logs (out st1) @
                                          [(Debug, ''stored '' @ contentPath @ '' with commit '' @
                                              commit_sha (data results))],
                                        promise := settle (promise (out st1)) (Resolved downloadPath)\<rparr>\<rparr>))"

text \<open>The \<open>error\<close> listener is an arrow function: its \<open>this\<close> is the driver.\<close>

definition on_error :: "driver \<Rightarrow> string \<Rightarrow> string \<Rightarrow> write_state \<Rightarrow> write_state" where
  "on_error this contentPath err st =
     st\<lparr>out := (out st)\<lparr>
        logs := logs (out st) @
          [(ErrorLevel, ''failed to store '' @ contentPath @ '' using GitHub driver'')],
        promise := settle (promise (out st))
          (Rejected (Error (''GitHub storage driver failed: failed to write file'' @
             contentPath @ '' in bucket '' @ template (bucket this) @ '': '' @ err @ ''}'')))\<rparr>\<rparr>"

text \<open>
  The events of the stream are delivered in order, each to its listener. A \<open>Readable\<close>
  emits its chunks and then either \<open>end\<close> or \<open>error\<close>; the properties below are about
  such sequences.
\<close>

fun emit :: "driver \<Rightarrow> readable \<Rightarrow> string \<Rightarrow> string \<Rightarrow> stream_event list \<Rightarrow> write_state \<Rightarrow> write_state" where
  "emit this emitter contentPath downloadPath [] st = st"
| "emit this emitter contentPath downloadPath (Data chunk # evs) st =
     emit this emitter contentPath downloadPath evs (on_data chunk st)"
| "emit this emitter contentPath downloadPath (End # evs) st =
     emit this emitter contentPath downloadPath evs (on_end emitter contentPath downloadPath st)"
| "emit this emitter contentPath downloadPath (ErrorEvent err # evs) st =
     emit this emitter contentPath downloadPath evs (on_error this contentPath err st)"

definition performWrite :: "driver \<Rightarrow> write_args \<Rightarrow> string outcome" where
  "performWrite this args =
     (if \<not> isPathValid (arg_path args) then
        \<lparr>promise = Rejected (BadPathError ''Invalid Path''), calls = [], unhandled = [], logs = []\<rparr>
      else
        let contentPath = storageTopLevel args @ ''/'' @ arg_path args;
            downloadPath = getReadURLPrefix this @ ''/'' @ contentPath;
            params = \<lparr>p_owner = owner this,
                      p_repo = repo this,
                      p_path = contentPath,
                      p_message = ''TODO: add comment'',
                      p_branch = ref this,
                      p_committer = \<lparr>committer_name = ''gaia'', committer_email = ''someone@somewhere''\<rparr>,
                      p_content = ''''\<rparr>
        in out (emit this (stream args) contentPath downloadPath (events (stream args))
                  \<lparr>contents = '''', ghParams = params,
                   out = \<lparr>promise = Pending, calls = [], unhandled = [], logs = []\<rparr>\<rparr>))"

subsection \<open>Listing\<close>

record listing =
  entries :: "string list"
  page :: "string option"

text \<open>\<open>results.forEach(result => filenames.push(result.name))\<close>\<close>

fun forEach_push :: "dir_entry list \<Rightarrow> string list \<Rightarrow> string list" where
  "forEach_push [] filenames = filenames"
| "forEach_push (result # results) filenames = forEach_push results (filenames @ [entry_name result])"

text \<open>
  The promise is built from \<open>resolve\<close> alone, and the promise that \<open>getContents\<close>
  returns has no rejection handler. \<open>forEach\<close> is called on the value \<open>getContents\<close>
  resolved with: a response object has no such method, so the call throws a \<open>TypeError\<close>
  inside the \<open>then\<close> callback, before \<open>resolve\<close>.
\<close>

definition listFiles :: "driver \<Rightarrow> string \<Rightarrow> string option \<Rightarrow> listing outcome" where
  "listFiles this topLevel page_arg =
     (let params = \<lparr>lp_owner = owner this, lp_repo = repo this, lp_path = path this @ ''/'' @ topLevel\<rparr>;
          page_logs = (if missing page_arg then [] else [(Debug, ''TODO: handle page'')])
      in case getContents (oc this) params of
           Inl e \<Rightarrow>
             \<lparr>promise = Pending, calls = [GetContents params], unhandled = [e], logs = page_logs\<rparr>
         | Inr (ResponseObject results) \<Rightarrow>
             \<lparr>promise = Pending, calls = [GetContents params], unhandled = [TypeError],
              logs = page_logs\<rparr>
         | Inr (BareArray results) \<Rightarrow>
             \<lparr>promise = Resolved \<lparr>entries = forEach_push results [], page = None\<rparr>,
              calls = [GetContents params], unhandled = [], logs = page_logs\<rparr>)"

subsection \<open>Example values\<close>

text \<open>
  A backend that accepts every call and answers as octokit does, one that rejects every
  call, and the driver the constructor builds for owner \<open>acme\<close>, repository \<open>site\<close> and
  branch \<open>main\<close>.
\<close>

definition accepting_client :: octokit where
  "accepting_client =
     \<lparr>createFile = (\<lambda>params. Inr \<lparr>data = \<lparr>commit_sha = ''7d1e0c4''\<rparr>, status = 201, headers = []\<rparr>),
      getContents = (\<lambda>params. Inr (ResponseObject
         \<lparr>data = [\<lparr>entry_name = ''a.txt'', entry_other = [(''type'', ''file'')]\<rparr>,
                   \<lparr>entry_name = ''b.txt'', entry_other = [(''type'', ''file'')]\<rparr>],
          status = 200, headers = []\<rparr>))\<rparr>"

definition failing_client :: octokit where
  "failing_client =
     \<lparr>createFile = (\<lambda>params. Inl (Error ''Not Found'')),
      getContents = (\<lambda>params. Inl (Error ''Not Found''))\<rparr>"

definition new_octokit_stub :: "js_value \<Rightarrow> string \<Rightarrow> string \<Rightarrow> octokit" where
  "new_octokit_stub baseurl authtype token = accepting_client"

definition example_config :: config where
  "example_config =
     \<lparr>ghConfig = Some [(''authtype'', Str ''token''), (''token'', Str ''s3cr3t''),
                        (''owner'', Str ''acme''), (''repo'', Str ''site''), (''ref'', Str ''main'')],
      cfg_bucket = ''hub-bucket''\<rparr>"

definition example_driver :: driver where
  "example_driver =
     \<lparr>oc = accepting_client, bucket = None, owner = ''acme'', repo = ''site'',
      path = ''/'', ref = ''main''\<rparr>"

definition plain_stream :: "stream_event list \<Rightarrow> readable" where
  "plain_stream evs = \<lparr>events = evs, stream_oc = None\<rparr>"


section \<open>Path validation\<close>

lemma startsWith_iff: "startsWith s p = (\<exists>v. s = p @ v)"
  by (induction s p rule: startsWith.induct) auto

lemma indexOf_from_miss:
  "0 \<le> k \<Longrightarrow> (indexOf_from k s pat = - 1) = (\<not> (\<exists>u v. s = u @ pat @ v))"
proof (induction s arbitrary: k)
  case Nil
  then show ?case by auto
next
  case (Cons c cs)
  show ?case
  proof (cases "startsWith (c # cs) pat")
    case True
    then obtain v where "c # cs = pat @ v"
      by (auto simp: startsWith_iff)
    then have "c # cs = [] @ pat @ v" by simp
    then have "\<exists>u v. c # cs = u @ pat @ v" by blast
    with True Cons.prems show ?thesis by simp
  next
    case False
    have here: "(\<exists>u v. c # cs = u @ pat @ v) = (\<exists>u v. cs = u @ pat @ v)"
    proof
      assume "\<exists>u v. c # cs = u @ pat @ v"
      then obtain u v where uv: "c # cs = u @ pat @ v" by blast
      show "\<exists>u v. cs = u @ pat @ v"
      proof (cases u)
        case Nil
        with uv have "startsWith (c # cs) pat" by (auto simp: startsWith_iff)
        with False show ?thesis by simp
      next
        case (Cons a u')
        with uv have "cs = u' @ pat @ v" by simp
        then show ?thesis by blast
      qed
    next
      assume "\<exists>u v. cs = u @ pat @ v"
      then obtain u v where "cs = u @ pat @ v" by blast
      then have "c # cs = (c # u) @ pat @ v" by simp
      then show "\<exists>u v. c # cs = u @ pat @ v" by blast
    qed
    from Cons.IH [of "k + 1"] Cons.prems False here show ?thesis by simp
  qed
qed

text \<open>
  Claim C7. \<open>isPathValid\<close> answers false exactly for the paths that contain the two
  characters \<open>..\<close> somewhere; the empty path and paths whose dots are all single are valid.
  The function reads nothing but its argument.
\<close>

theorem isPathValid_iff_no_dotdot:
  "(isPathValid p = False) = (\<exists>u v. p = u @ ''..'' @ v)
   \<and> isPathValid '''' = True
   \<and> isPathValid ''./a.b/c.txt'' = True"
proof -
  have "(isPathValid p = False) = (\<exists>u v. p = u @ ''..'' @ v)"
    using indexOf_from_miss [of 0 p "''..''"] by (simp add: isPathValid_def indexOf_def)
  moreover have "isPathValid '''' = True"
    by (simp add: isPathValid_def indexOf_def)
  moreover have "isPathValid ''./a.b/c.txt'' = True"
    by (simp add: isPathValid_def indexOf_def)
  ultimately show ?thesis by blast
qed

section \<open>The read URL prefix\<close>

text \<open>
  Claim C8. \<open>getReadURLPrefix\<close> is a function of the owner, the repository and the ref
  alone: two instances that agree on the three give the same prefix, whatever their
  client, bucket and path. It returns a string on every instance, and for \<open>acme\<close>,
  \<open>site\<close>, \<open>main\<close> that string is \<open>https://raw.githubusercontent.com/acme/site/main/\<close>.
\<close>

theorem getReadURLPrefix_pure:
  "(owner d = owner d' \<and> repo d = repo d' \<and> ref d = ref d'
      \<longrightarrow> getReadURLPrefix d = getReadURLPrefix d')
   \<and> (owner d = ''acme'' \<and> repo d = ''site'' \<and> ref d = ''main''
      \<longrightarrow> getReadURLPrefix d = ''https://raw.githubusercontent.com/acme/site/main/'')"
  by (simp add: getReadURLPrefix_def)

theorem getReadURLPrefix_pure_witness:
  "getReadURLPrefix example_driver =
     getReadURLPrefix \<lparr>oc = failing_client, bucket = Some ''other'', owner = ''acme'',
                       repo = ''site'', path = ''/data'', ref = ''main''\<rparr>
   \<and> getReadURLPrefix example_driver = ''https://raw.githubusercontent.com/acme/site/main/''"
proof -
  let ?other = "\<lparr>oc = failing_client, bucket = Some ''other'', owner = ''acme'',
                 repo = ''site'', path = ''/data'', ref = ''main''\<rparr>"
  have agree: "owner example_driver = owner ?other \<and> repo example_driver = repo ?other
                 \<and> ref example_driver = ref ?other"
    by (simp add: example_driver_def)
  have acme: "owner example_driver = ''acme'' \<and> repo example_driver = ''site''
                 \<and> ref example_driver = ''main''"
    by (simp add: example_driver_def)
  from agree acme getReadURLPrefix_pure [of example_driver ?other] show ?thesis
    by blast
qed

section \<open>Writing\<close>

lemma emit_data:
  "emit this emitter cp dp (map Data chunks @ evs) st =
     emit this emitter cp dp evs (st\<lparr>contents := contents st @ concat chunks\<rparr>)"
  by (induction chunks arbitrary: st) (simp_all add: on_data_def)

text \<open>
  Claim C5. A write whose path contains \<open>..\<close> is rejected with \<open>BadPathError\<close>, and the
  rejection is all that happens: no backend call, whatever the stream holds.
\<close>

theorem performWrite_bad_path:
  "arg_path args = u @ ''..'' @ v \<Longrightarrow>
   performWrite this args =
     \<lparr>promise = Rejected (BadPathError ''Invalid Path''), calls = [], unhandled = [], logs = []\<rparr>"
proof -
  assume "arg_path args = u @ ''..'' @ v"
  then have "\<exists>u v. arg_path args = u @ ''..'' @ v" by blast
  then have "indexOf_from 0 (arg_path args) ''..'' \<noteq> - 1"
    using indexOf_from_miss [of 0 "arg_path args" "''..''"] by simp
  then show ?thesis
    by (simp add: performWrite_def isPathValid_def indexOf_def)
qed

theorem performWrite_bad_path_witness:
  "performWrite example_driver
     \<lparr>arg_path = ''../etc/passwd'', storageTopLevel = ''store1'',
      stream = \<lparr>events = [Data ''root:x:0:0'', End], stream_oc = Some accepting_client\<rparr>,
      contentLength = 10, contentType = ''text/plain''\<rparr>
   = \<lparr>promise = Rejected (BadPathError ''Invalid Path''), calls = [], unhandled = [], logs = []\<rparr>"
  using performWrite_bad_path [of
      "\<lparr>arg_path = ''../etc/passwd'', storageTopLevel = ''store1'',
        stream = \<lparr>events = [Data ''root:x:0:0'', End], stream_oc = Some accepting_client\<rparr>,
        contentLength = 10, contentType = ''text/plain''\<rparr>"
      "[]" "''/etc/passwd''" example_driver]
  by simp

text \<open>
  Claim C10. The declared content length and content type are never read: two writes
  that agree on the path, the top level and the stream leave the same outcome (the same
  rejection or resolution, the same backend calls with the same arguments).
\<close>

theorem performWrite_ignores_declared_length_and_type:
  "arg_path a = arg_path b \<Longrightarrow> storageTopLevel a = storageTopLevel b \<Longrightarrow> stream a = stream b \<Longrightarrow>
   performWrite this a = performWrite this b"
  by (simp add: performWrite_def)

theorem performWrite_ignores_declared_length_and_type_witness:
  "performWrite example_driver
     \<lparr>arg_path = ''foo.txt'', storageTopLevel = ''store1'',
      stream = plain_stream [Data ''hello'', ErrorEvent ''Error: aborted''],
      contentLength = 5, contentType = ''text/plain''\<rparr>
   = performWrite example_driver
     \<lparr>arg_path = ''foo.txt'', storageTopLevel = ''store1'',
      stream = plain_stream [Data ''hello'', ErrorEvent ''Error: aborted''],
      contentLength = 4096, contentType = ''application/json''\<rparr>"
  using performWrite_ignores_declared_length_and_type [of
      "\<lparr>arg_path = ''foo.txt'', storageTopLevel = ''store1'',
        stream = plain_stream [Data ''hello'', ErrorEvent ''Error: aborted''],
        contentLength = 5, contentType = ''text/plain''\<rparr>"
      "\<lparr>arg_path = ''foo.txt'', storageTopLevel = ''store1'',
        stream = plain_stream [Data ''hello'', ErrorEvent ''Error: aborted''],
        contentLength = 4096, contentType = ''application/json''\<rparr>"
      example_driver]
  by simp

lemma performWrite_stream_error:
  assumes "isPathValid (arg_path args)"
    and "events (stream args) = map Data chunks @ [ErrorEvent err]"
  shows "performWrite this args =
     \<lparr>promise = Rejected (Error (''GitHub storage driver failed: failed to write file'' @
          (storageTopLevel args @ ''/'' @ arg_path args) @ '' in bucket '' @
          template (bucket this) @ '': '' @ err @ ''}'')),
      calls = [], unhandled = [],
      logs = [(ErrorLevel, ''failed to store '' @ (storageTopLevel args @ ''/'' @ arg_path args) @
                '' using GitHub driver'')]\<rparr>"
  using assms by (simp add: performWrite_def emit_data on_error_def Let_def)

lemma performWrite_end_plain_stream:
  assumes "isPathValid (arg_path args)"
    and "events (stream args) = map Data chunks @ [End]"
    and "stream_oc (stream args) = None"
  shows "performWrite this args =
     \<lparr>promise = Pending, calls = [], unhandled = [TypeError], logs = []\<rparr>"
  using assms by (simp add: performWrite_def emit_data on_end_def Let_def)

lemma performWrite_end_stream_with_client:
  assumes "isPathValid (arg_path args)"
    and "events (stream args) = map Data chunks @ [End]"
    and "stream_oc (stream args) = Some client"
    and "createFile client
           \<lparr>p_owner = owner this, p_repo = repo this,
            p_path = storageTopLevel args @ ''/'' @ arg_path args,
            p_message = ''TODO: add comment'', p_branch = ref this,
            p_committer = \<lparr>committer_name = ''gaia'', committer_email = ''someone@somewhere''\<rparr>,
            p_content = concat chunks\<rparr> = Inr results"
  shows "promise (performWrite this args) =
           Resolved (getReadURLPrefix this @ ''/'' @ storageTopLevel args @ ''/'' @ arg_path args)"
  using assms by (simp add: performWrite_def emit_data on_end_def Let_def)

lemma constructor_leaves_bucket_unset:
  "constructor new_octokit cfg = Inr (d, l) \<Longrightarrow> bucket d = None"
  by (auto simp: constructor_def Let_def split: option.splits if_splits)

lemma constructor_example:
  "constructor new_octokit_stub example_config =
     Inr (example_driver,
          [(Info, ''setting path to / as its not supplied in GitHub driver configuration''),
           (Info, ''about to authenticate to GitHub'')])"
  by (simp add: constructor_def example_config_def object_keys_def property_def
      switch_authtype_def example_driver_def new_octokit_stub_def)

text \<open>
  Claim C2. At the end of a stream that ended normally the code reads \<open>this.oc\<close> inside a
  \<open>function\<close> listener, where \<open>this\<close> is the stream: for a write of \<open>foo.txt\<close> under
  \<open>store1\<close> whose stream delivers two chunks and ends, no create-or-update call reaches
  the backend, a \<open>TypeError\<close> escapes the listener and the promise stays pending.
\<close>

theorem performWrite_end_of_stream_example:
  "performWrite example_driver
     \<lparr>arg_path = ''foo.txt'', storageTopLevel = ''store1'',
      stream = plain_stream [Data ''hel'', Data ''lo'', End],
      contentLength = 5, contentType = ''text/plain''\<rparr>
   = \<lparr>promise = Pending, calls = [], unhandled = [TypeError], logs = []\<rparr>"
  by (simp add: performWrite_def isPathValid_def indexOf_def plain_stream_def
      on_data_def on_end_def Let_def)

text \<open>
  Claim C1. The write of \<open>foo.txt\<close> under \<open>store1\<close> on a backend that accepts every call
  does not resolve on a plain stream. The URL the code has computed for it, which it
  resolves with when the stream object itself carries the client, has two slashes between
  the prefix and the content path; the prefix followed by \<open>store1/foo.txt\<close> has one.
\<close>

theorem performWrite_resolved_url_example:
  "promise (performWrite example_driver
     \<lparr>arg_path = ''foo.txt'', storageTopLevel = ''store1'',
      stream = plain_stream [Data ''hello'', End],
      contentLength = 5, contentType = ''text/plain''\<rparr>) = Pending
   \<and> promise (performWrite example_driver
     \<lparr>arg_path = ''foo.txt'', storageTopLevel = ''store1'',
      stream = \<lparr>events = [Data ''hello'', End], stream_oc = Some accepting_client\<rparr>,
      contentLength = 5, contentType = ''text/plain''\<rparr>)
     = Resolved ''https://raw.githubusercontent.com/acme/site/main//store1/foo.txt''
   \<and> getReadURLPrefix example_driver @ ''store1/foo.txt''
     = ''https://raw.githubusercontent.com/acme/site/main/store1/foo.txt''"
  by (simp add: performWrite_def isPathValid_def indexOf_def plain_stream_def
      on_data_def on_end_def getReadURLPrefix_def example_driver_def accepting_client_def
      Let_def)

text \<open>
  Claim C4. The driver that the constructor builds for bucket \<open>hub-bucket\<close> has no
  bucket field. A write whose stream fails after one chunk is rejected with an error that
  carries the content path and the stream's error, and no backend call is made; where the
  bucket should stand the message reads \<open>undefined\<close>, and the bucket's name is nowhere
  in it.
\<close>

theorem performWrite_stream_error_example:
  "constructor new_octokit_stub example_config =
     Inr (example_driver,
          [(Info, ''setting path to / as its not supplied in GitHub driver configuration''),
           (Info, ''about to authenticate to GitHub'')])
   \<and> performWrite example_driver
     \<lparr>arg_path = ''foo.txt'', storageTopLevel = ''store1'',
      stream = plain_stream [Data ''hel'', ErrorEvent ''Error: read ECONNRESET''],
      contentLength = 5, contentType = ''text/plain''\<rparr>
     = \<lparr>promise = Rejected (Error
          ''GitHub storage driver failed: failed to write filestore1/foo.txt in bucket undefined: Error: read ECONNRESET}''),
        calls = [], unhandled = [],
        logs = [(ErrorLevel, ''failed to store store1/foo.txt using GitHub driver'')]\<rparr>
   \<and> indexOf
        ''GitHub storage driver failed: failed to write filestore1/foo.txt in bucket undefined: Error: read ECONNRESET}''
        (cfg_bucket example_config) = - 1"
proof -
  have "performWrite example_driver
     \<lparr>arg_path = ''foo.txt'', storageTopLevel = ''store1'',
      stream = plain_stream [Data ''hel'', ErrorEvent ''Error: read ECONNRESET''],
      contentLength = 5, contentType = ''text/plain''\<rparr>
     = \<lparr>promise = Rejected (Error
          ''GitHub storage driver failed: failed to write filestore1/foo.txt in bucket undefined: Error: read ECONNRESET}''),
        calls = [], unhandled = [],
        logs = [(ErrorLevel, ''failed to store store1/foo.txt using GitHub driver'')]\<rparr>"
    by (simp add: performWrite_def isPathValid_def indexOf_def plain_stream_def
        on_data_def on_error_def example_driver_def Let_def)
  moreover have "indexOf
        ''GitHub storage driver failed: failed to write filestore1/foo.txt in bucket undefined: Error: read ECONNRESET}''
        (cfg_bucket example_config) = - 1"
    by (simp add: indexOf_def example_config_def)
  ultimately show ?thesis
    using constructor_example by simp
qed

section \<open>Listing\<close>

lemma forEach_push_map: "forEach_push results filenames = filenames @ map entry_name results"
  by (induction results arbitrary: filenames) simp_all

lemma listFiles_calls:
  "calls (listFiles this topLevel page_arg) =
     [GetContents \<lparr>lp_owner = owner this, lp_repo = repo this,
                   lp_path = path this @ ''/'' @ topLevel\<rparr>]"
  by (simp add: listFiles_def Let_def split: sum.splits contents_answer.splits)

lemma listFiles_backend_error:
  "getContents (oc this)
     \<lparr>lp_owner = owner this, lp_repo = repo this, lp_path = path this @ ''/'' @ topLevel\<rparr> = Inl e
   \<Longrightarrow> promise (listFiles this topLevel page_arg) = Pending
     \<and> unhandled (listFiles this topLevel page_arg) = [e]"
  by (simp add: listFiles_def Let_def)

lemma listFiles_response_object:
  "getContents (oc this)
     \<lparr>lp_owner = owner this, lp_repo = repo this, lp_path = path this @ ''/'' @ topLevel\<rparr>
     = Inr (ResponseObject results)
   \<Longrightarrow> promise (listFiles this topLevel page_arg) = Pending
     \<and> unhandled (listFiles this topLevel page_arg) = [TypeError]"
  by (simp add: listFiles_def Let_def)

lemma listFiles_bare_array:
  "getContents (oc this)
     \<lparr>lp_owner = owner this, lp_repo = repo this, lp_path = path this @ ''/'' @ topLevel\<rparr>
     = Inr (BareArray results)
   \<Longrightarrow> promise (listFiles this topLevel page_arg) =
         Resolved \<lparr>entries = map entry_name results, page = None\<rparr>"
  by (simp add: listFiles_def forEach_push_map Let_def)

text \<open>
  Claim C9. On the client the constructor builds, whose get-contents call succeeds with
  a response object that holds \<open>a.txt\<close> and \<open>b.txt\<close> in \<open>data\<close>, \<open>listFiles\<close> does query
  the configured path, a slash and the top level, but it iterates over the response
  object itself: \<open>forEach\<close> throws a \<open>TypeError\<close> that nothing handles, and the promise
  stays pending instead of resolving with the two names and a null page.
\<close>

theorem listFiles_response_object_example:
  "getContents (oc example_driver)
     \<lparr>lp_owner = ''acme'', lp_repo = ''site'', lp_path = ''//store1''\<rparr>
     = Inr (ResponseObject
         \<lparr>data = [\<lparr>entry_name = ''a.txt'', entry_other = [(''type'', ''file'')]\<rparr>,
                   \<lparr>entry_name = ''b.txt'', entry_other = [(''type'', ''file'')]\<rparr>],
          status = 200, headers = []\<rparr>)
   \<and> listFiles example_driver ''store1'' None =
     \<lparr>promise = Pending,
      calls = [GetContents \<lparr>lp_owner = ''acme'', lp_repo = ''site'', lp_path = ''//store1''\<rparr>],
      unhandled = [TypeError], logs = []\<rparr>"
  by (simp add: listFiles_def example_driver_def accepting_client_def Let_def)

text \<open>
  Claim C3. On a backend whose get-contents call is rejected with \<open>Not Found\<close>, the
  listing promise is neither rejected nor resolved: the rejection has no handler and the
  promise stays pending.
\<close>

theorem listFiles_backend_error_example:
  "listFiles (example_driver\<lparr>oc := failing_client\<rparr>) ''store1'' None =
     \<lparr>promise = Pending,
      calls = [GetContents \<lparr>lp_owner = ''acme'', lp_repo = ''site'', lp_path = ''//store1''\<rparr>],
      unhandled = [Error ''Not Found''], logs = []\<rparr>"
  by (simp add: listFiles_def example_driver_def failing_client_def Let_def)


section \<open>Construction\<close>

text \<open>
  Claim C6, as stated, fails on a configuration object without keys: its authtype is
  absent, and the constructor reports a missing configuration, not an unsupported auth
  type.
\<close>

theorem constructor_empty_config_counterexample:
  \<open>property [] ''authtype'' = Undefined
   \<and> constructor new_octokit_stub \<lparr>ghConfig = Some [], cfg_bucket = ''hub-bucket''\<rparr>
       = Inl (Error ''Configuration is missing for GitHub driver'')
   \<and> constructor new_octokit_stub \<lparr>ghConfig = Some [], cfg_bucket = ''hub-bucket''\<rparr>
       \<noteq> Inl (Error ''Using an unsupported auth type. Only "token" or "oauth" are supported'')\<close>
  by (simp add: constructor_def object_keys_def property_def)

text \<open>
  Claim C6, amended. A configuration that is absent or has no own key fails as missing.
  On a configuration with at least one own key, of any name and with any value, the
  checks run in this order: an authtype that is absent, undefined, null or any string
  other than \<open>token\<close> and \<open>oauth\<close> fails as unsupported; a supported authtype with an
  absent or empty token fails for the missing token; then an absent or empty owner, and
  after it an absent or empty repo, fails for the missing identifier; and when all four
  are present, an absent or empty path and ref give an instance with path \<open>/\<close> and ref
  \<open>master\<close>, each default noted in the log.
\<close>

theorem constructor_checks_in_order:
  \<open>(ghConfig cfg = None \<or> (ghConfig cfg = Some g \<and> object_keys g = [])
      \<longrightarrow> constructor new_octokit cfg = Inl (Error ''Configuration is missing for GitHub driver''))
   \<and> (ghConfig cfg = Some g \<and> object_keys g \<noteq> []
      \<longrightarrow>
        (property g ''authtype'' \<noteq> Str ''token'' \<and> property g ''authtype'' \<noteq> Str ''oauth''
          \<longrightarrow> constructor new_octokit cfg =
                Inl (Error ''Using an unsupported auth type. Only "token" or "oauth" are supported''))
      \<and> (property g ''authtype'' = Str ''token'' \<and> falsy (property g ''token'')
          \<longrightarrow> constructor new_octokit cfg =
                Inl (Error ''Using token authentication but no token supplied''))
      \<and> (property g ''authtype'' = Str ''oauth'' \<and> falsy (property g ''token'')
          \<longrightarrow> constructor new_octokit cfg =
                Inl (Error ''Using oauth authentication but no token supplied''))
      \<and> ((property g ''authtype'' = Str ''token'' \<or> property g ''authtype'' = Str ''oauth'')
          \<and> \<not> falsy (property g ''token'') \<and> falsy (property g ''owner'')
          \<longrightarrow> constructor new_octokit cfg = Inl (Error ''You must supply an owner''))
      \<and> ((property g ''authtype'' = Str ''token'' \<or> property g ''authtype'' = Str ''oauth'')
          \<and> \<not> falsy (property g ''token'') \<and> \<not> falsy (property g ''owner'') \<and> falsy (property g ''repo'')
          \<longrightarrow> constructor new_octokit cfg = Inl (Error ''You must supply an repo''))
      \<and> ((property g ''authtype'' = Str ''token'' \<or> property g ''authtype'' = Str ''oauth'')
          \<and> \<not> falsy (property g ''token'') \<and> \<not> falsy (property g ''owner'') \<and> \<not> falsy (property g ''repo'')
          \<and> falsy (property g ''path'') \<and> falsy (property g ''ref'')
          \<longrightarrow> constructor new_octokit cfg =
                Inr (\<lparr>oc = new_octokit (property g ''baseurl'') (string_of (property g ''authtype''))
                             (string_of (property g ''token'')),
                      bucket = None, owner = string_of (property g ''owner''),
                      repo = string_of (property g ''repo''),
                      path = ''/'', ref = ''master''\<rparr>,
                     [(Info, ''setting path to / as its not supplied in GitHub driver configuration''),
                      (Info, ''setting ref to "master" as its not supplied in GitHub driver configuration''),
                      (Info, ''about to authenticate to GitHub'')])))\<close>
proof -
  have absent: \<open>ghConfig cfg = None \<or> (ghConfig cfg = Some g \<and> object_keys g = [])
      \<longrightarrow> constructor new_octokit cfg = Inl (Error ''Configuration is missing for GitHub driver'')\<close>
    by (auto simp: constructor_def)
  have present: \<open>constructor new_octokit cfg =
      (case switch_authtype (property g ''authtype'') (property g ''token'') of
         Some e \<Rightarrow> Inl e
       | None \<Rightarrow>
           if falsy (property g ''owner'') then Inl (Error ''You must supply an owner'')
           else if falsy (property g ''repo'') then Inl (Error ''You must supply an repo'')
           else Inr (\<lparr>oc = new_octokit (property g ''baseurl'') (string_of (property g ''authtype''))
                             (string_of (property g ''token'')),
                      bucket = None, owner = string_of (property g ''owner''),
                      repo = string_of (property g ''repo''),
                      path = (if falsy (property g ''path'') then ''/'' else string_of (property g ''path'')),
                      ref = (if falsy (property g ''ref'') then ''master'' else string_of (property g ''ref''))\<rparr>,
                     (if falsy (property g ''path'')
                        then [(Info, ''setting path to / as its not supplied in GitHub driver configuration'')]
                        else []) @
                     (if falsy (property g ''ref'')
                        then [(Info, ''setting ref to "master" as its not supplied in GitHub driver configuration'')]
                        else []) @
                     [(Info, ''about to authenticate to GitHub'')]))\<close>
    if "ghConfig cfg = Some g" and "object_keys g \<noteq> []"
    using that by (simp add: constructor_def Let_def split: option.splits)
  have sw_bad: \<open>switch_authtype a t =
      Some (Error ''Using an unsupported auth type. Only "token" or "oauth" are supported'')\<close>
    if "a \<noteq> Str ''token''" and "a \<noteq> Str ''oauth''" for a t
    using that by (simp add: switch_authtype_def)
  have sw_token: \<open>switch_authtype (Str ''token'') t =
      Some (Error ''Using token authentication but no token supplied'')\<close>
    if "falsy t" for t
    using that by (simp add: switch_authtype_def)
  have sw_oauth: \<open>switch_authtype (Str ''oauth'') t =
      Some (Error ''Using oauth authentication but no token supplied'')\<close>
    if "falsy t" for t
    using that by (simp add: switch_authtype_def)
  have sw_ok: "switch_authtype a t = None"
    if "a = Str ''token'' \<or> a = Str ''oauth''" and "\<not> falsy t" for a t
    using that by (auto simp: switch_authtype_def)
  show ?thesis
    using absent by (auto simp: present sw_bad sw_token sw_oauth sw_ok)
qed

theorem constructor_checks_in_order_witness:
  \<open>constructor new_octokit_stub \<lparr>ghConfig = None, cfg_bucket = ''hub-bucket''\<rparr>
     = Inl (Error ''Configuration is missing for GitHub driver'')
   \<and> constructor new_octokit_stub \<lparr>ghConfig = Some [], cfg_bucket = ''hub-bucket''\<rparr>
     = Inl (Error ''Configuration is missing for GitHub driver'')
   \<and> constructor new_octokit_stub
       \<lparr>ghConfig = Some [(''authtype'', Undefined)], cfg_bucket = ''hub-bucket''\<rparr>
     = Inl (Error ''Using an unsupported auth type. Only "token" or "oauth" are supported'')
   \<and> constructor new_octokit_stub
       \<lparr>ghConfig = Some [(''authtype'', Null)], cfg_bucket = ''hub-bucket''\<rparr>
     = Inl (Error ''Using an unsupported auth type. Only "token" or "oauth" are supported'')
   \<and> constructor new_octokit_stub
       \<lparr>ghConfig = Some [(''foo'', Str ''x'')], cfg_bucket = ''hub-bucket''\<rparr>
     = Inl (Error ''Using an unsupported auth type. Only "token" or "oauth" are supported'')
   \<and> constructor new_octokit_stub
       \<lparr>ghConfig = Some [(''authtype'', Str ''basic''), (''token'', Str ''s3cr3t'')],
        cfg_bucket = ''hub-bucket''\<rparr>
     = Inl (Error ''Using an unsupported auth type. Only "token" or "oauth" are supported'')
   \<and> constructor new_octokit_stub
       \<lparr>ghConfig = Some [(''authtype'', Str ''token''), (''token'', Str '''')],
        cfg_bucket = ''hub-bucket''\<rparr>
     = Inl (Error ''Using token authentication but no token supplied'')
   \<and> constructor new_octokit_stub
       \<lparr>ghConfig = Some [(''authtype'', Str ''oauth'')], cfg_bucket = ''hub-bucket''\<rparr>
     = Inl (Error ''Using oauth authentication but no token supplied'')
   \<and> constructor new_octokit_stub
       \<lparr>ghConfig = Some [(''authtype'', Str ''token''), (''token'', Str ''s3cr3t''),
                          (''repo'', Str ''site'')],
        cfg_bucket = ''hub-bucket''\<rparr>
     = Inl (Error ''You must supply an owner'')
   \<and> constructor new_octokit_stub
       \<lparr>ghConfig = Some [(''authtype'', Str ''oauth''), (''token'', Str ''s3cr3t''),
                          (''owner'', Str ''acme'')],
        cfg_bucket = ''hub-bucket''\<rparr>
     = Inl (Error ''You must supply an repo'')
   \<and> constructor new_octokit_stub
       \<lparr>ghConfig = Some [(''authtype'', Str ''token''), (''token'', Str ''s3cr3t''),
                          (''owner'', Str ''acme''), (''repo'', Str ''site'')],
        cfg_bucket = ''hub-bucket''\<rparr>
     = Inr (\<lparr>oc = accepting_client, bucket = None, owner = ''acme'', repo = ''site'',
             path = ''/'', ref = ''master''\<rparr>,
            [(Info, ''setting path to / as its not supplied in GitHub driver configuration''),
             (Info, ''setting ref to "master" as its not supplied in GitHub driver configuration''),
             (Info, ''about to authenticate to GitHub'')])\<close>
proof -
  note keys = object_keys_def property_def new_octokit_stub_def
  have w_none: \<open>constructor new_octokit_stub \<lparr>ghConfig = None, cfg_bucket = ''hub-bucket''\<rparr>
     = Inl (Error ''Configuration is missing for GitHub driver'')\<close>
    using constructor_checks_in_order
      [of "\<lparr>ghConfig = None, cfg_bucket = ''hub-bucket''\<rparr>" "[]" new_octokit_stub]
    by simp
  have w_empty: \<open>constructor new_octokit_stub \<lparr>ghConfig = Some [], cfg_bucket = ''hub-bucket''\<rparr>
     = Inl (Error ''Configuration is missing for GitHub driver'')\<close>
    using constructor_checks_in_order
      [of "\<lparr>ghConfig = Some [], cfg_bucket = ''hub-bucket''\<rparr>" "[]" new_octokit_stub]
    by (simp add: keys)
  have w_undef: \<open>constructor new_octokit_stub
       \<lparr>ghConfig = Some [(''authtype'', Undefined)], cfg_bucket = ''hub-bucket''\<rparr>
     = Inl (Error ''Using an unsupported auth type. Only "token" or "oauth" are supported'')\<close>
    using constructor_checks_in_order
      [of "\<lparr>ghConfig = Some [(''authtype'', Undefined)], cfg_bucket = ''hub-bucket''\<rparr>"
          "[(''authtype'', Undefined)]" new_octokit_stub]
    by (simp add: keys)
  have w_null: \<open>constructor new_octokit_stub
       \<lparr>ghConfig = Some [(''authtype'', Null)], cfg_bucket = ''hub-bucket''\<rparr>
     = Inl (Error ''Using an unsupported auth type. Only "token" or "oauth" are supported'')\<close>
    using constructor_checks_in_order
      [of "\<lparr>ghConfig = Some [(''authtype'', Null)], cfg_bucket = ''hub-bucket''\<rparr>"
          "[(''authtype'', Null)]" new_octokit_stub]
    by (simp add: keys)
  have w_foo: \<open>constructor new_octokit_stub
       \<lparr>ghConfig = Some [(''foo'', Str ''x'')], cfg_bucket = ''hub-bucket''\<rparr>
     = Inl (Error ''Using an unsupported auth type. Only "token" or "oauth" are supported'')\<close>
    using constructor_checks_in_order
      [of "\<lparr>ghConfig = Some [(''foo'', Str ''x'')], cfg_bucket = ''hub-bucket''\<rparr>"
          "[(''foo'', Str ''x'')]" new_octokit_stub]
    by (simp add: keys)
  have w_basic: \<open>constructor new_octokit_stub
       \<lparr>ghConfig = Some [(''authtype'', Str ''basic''), (''token'', Str ''s3cr3t'')],
        cfg_bucket = ''hub-bucket''\<rparr>
     = Inl (Error ''Using an unsupported auth type. Only "token" or "oauth" are supported'')\<close>
    using constructor_checks_in_order
      [of "\<lparr>ghConfig = Some [(''authtype'', Str ''basic''), (''token'', Str ''s3cr3t'')],
            cfg_bucket = ''hub-bucket''\<rparr>"
          "[(''authtype'', Str ''basic''), (''token'', Str ''s3cr3t'')]" new_octokit_stub]
    by (simp add: keys)
  have w_token: \<open>constructor new_octokit_stub
       \<lparr>ghConfig = Some [(''authtype'', Str ''token''), (''token'', Str '''')],
        cfg_bucket = ''hub-bucket''\<rparr>
     = Inl (Error ''Using token authentication but no token supplied'')\<close>
    using constructor_checks_in_order
      [of "\<lparr>ghConfig = Some [(''authtype'', Str ''token''), (''token'', Str '''')],
            cfg_bucket = ''hub-bucket''\<rparr>"
          "[(''authtype'', Str ''token''), (''token'', Str '''')]" new_octokit_stub]
    by (simp add: keys)
  have w_oauth: \<open>constructor new_octokit_stub
       \<lparr>ghConfig = Some [(''authtype'', Str ''oauth'')], cfg_bucket = ''hub-bucket''\<rparr>
     = Inl (Error ''Using oauth authentication but no token supplied'')\<close>
    using constructor_checks_in_order
      [of "\<lparr>ghConfig = Some [(''authtype'', Str ''oauth'')], cfg_bucket = ''hub-bucket''\<rparr>"
          "[(''authtype'', Str ''oauth'')]" new_octokit_stub]
    by (simp add: keys)
  have w_owner: \<open>constructor new_octokit_stub
       \<lparr>ghConfig = Some [(''authtype'', Str ''token''), (''token'', Str ''s3cr3t''),
                          (''repo'', Str ''site'')],
        cfg_bucket = ''hub-bucket''\<rparr>
     = Inl (Error ''You must supply an owner'')\<close>
    using constructor_checks_in_order
      [of "\<lparr>ghConfig = Some [(''authtype'', Str ''token''), (''token'', Str ''s3cr3t''),
                              (''repo'', Str ''site'')],
            cfg_bucket = ''hub-bucket''\<rparr>"
          "[(''authtype'', Str ''token''), (''token'', Str ''s3cr3t''), (''repo'', Str ''site'')]"
          new_octokit_stub]
    by (simp add: keys)
  have w_repo: \<open>constructor new_octokit_stub
       \<lparr>ghConfig = Some [(''authtype'', Str ''oauth''), (''token'', Str ''s3cr3t''),
                          (''owner'', Str ''acme'')],
        cfg_bucket = ''hub-bucket''\<rparr>
     = Inl (Error ''You must supply an repo'')\<close>
    using constructor_checks_in_order
      [of "\<lparr>ghConfig = Some [(''authtype'', Str ''oauth''), (''token'', Str ''s3cr3t''),
                              (''owner'', Str ''acme'')],
            cfg_bucket = ''hub-bucket''\<rparr>"
          "[(''authtype'', Str ''oauth''), (''token'', Str ''s3cr3t''), (''owner'', Str ''acme'')]"
          new_octokit_stub]
    by (simp add: keys)
  have w_ok: \<open>constructor new_octokit_stub
       \<lparr>ghConfig = Some [(''authtype'', Str ''token''), (''token'', Str ''s3cr3t''),
                          (''owner'', Str ''acme''), (''repo'', Str ''site'')],
        cfg_bucket = ''hub-bucket''\<rparr>
     = Inr (\<lparr>oc = accepting_client, bucket = None, owner = ''acme'', repo = ''site'',
             path = ''/'', ref = ''master''\<rparr>,
            [(Info, ''setting path to / as its not supplied in GitHub driver configuration''),
             (Info, ''setting ref to "master" as its not supplied in GitHub driver configuration''),
             (Info, ''about to authenticate to GitHub'')])\<close>
    using constructor_checks_in_order
      [of "\<lparr>ghConfig = Some [(''authtype'', Str ''token''), (''token'', Str ''s3cr3t''),
                              (''owner'', Str ''acme''), (''repo'', Str ''site'')],
            cfg_bucket = ''hub-bucket''\<rparr>"
          "[(''authtype'', Str ''token''), (''token'', Str ''s3cr3t''),
            (''owner'', Str ''acme''), (''repo'', Str ''site'')]"
          new_octokit_stub]
    by (simp add: keys)
  from w_none w_empty w_undef w_null w_foo w_basic w_token w_oauth w_owner w_repo w_ok
  show ?thesis by blast
qed

end
